theory Spec2Isabelle
  imports Main "HOL-Library.Word"
begin

section \<open>Data model\<close>

type_synonym uint8 = "8 word"
type_synonym uint16 = "16 word"
type_synonym uint32 = "32 word"
type_synonym uint64 = "64 word"

text \<open>
  Go \<open>error\<close> values. The constructors are the errors the program and the library
  calls it makes can produce; the wrapping ones (\<open>fmt.Errorf\<close> with \<open>%w\<close>) keep the
  wrapped error. \<open>ErrExternal\<close> stands for an error of the operating system, the network or
  a document decoder, identified by its message.
\<close>

datatype error =
    ErrSyntax
  | ErrRange
  | ErrFieldCount
  | ErrExternal string
  | ErrParsingTTL error
  | ErrOpeningFile string error
  | ErrDecodingYAML string error
  | ErrReadingCSV string error
  | ErrUnsupportedFormat string

text \<open>The zone entry of the program: \<open>type Record struct\<close>.\<close>

record Record =
  Name :: string
  Type :: string
  TTL :: uint32
  Data :: string

record Config =
  Records :: "Record list"

text \<open>
  The message types of the DNS library (\<open>github.com/miekg/dns\<close>), with the fields the
  library declares. \<open>net.IP\<close> is a byte slice; \<open>nil\<close> is the empty list. A resource
  record is \<open>*dns.A\<close>, \<open>*dns.CNAME\<close>, or any other record type an upstream
  server may send (header and raw data).
\<close>

record RR_Header =
  Hdr_Name :: string
  Rrtype :: uint16
  Class :: uint16
  Ttl :: uint32
  Rdlength :: uint16

datatype RR =
    dns_A RR_Header "uint8 list"
  | dns_CNAME RR_Header string
  | dns_RR RR_Header "uint8 list"

record Question =
  Q_Name :: string
  Qtype :: uint16
  Qclass :: uint16

record MsgHdr =
  Msg_Id :: uint16
  Response :: bool
  Opcode :: int
  Authoritative :: bool
  Truncated :: bool
  RecursionDesired :: bool
  RecursionAvailable :: bool
  Zero :: bool
  AuthenticatedData :: bool
  CheckingDisabled :: bool
  Rcode :: int

record Msg =
  MsgHdr :: MsgHdr
  Compress :: bool
  Question :: "Question list"
  Answer :: "RR list"
  Ns :: "RR list"
  Extra :: "RR list"

definition TypeA :: uint16 where "TypeA = 1"
definition TypeCNAME :: uint16 where "TypeCNAME = 5"
definition TypeAAAA :: uint16 where "TypeAAAA = 28"
definition ClassINET :: uint16 where "ClassINET = 1"
definition OpcodeQuery :: int where "OpcodeQuery = 0"
definition RcodeSuccess :: int where "RcodeSuccess = 0"
definition RcodeNameError :: int where "RcodeNameError = 3"

text \<open>\<open>new(dns.Msg)\<close>: the zero value of every field.\<close>

definition new_Msg :: Msg where
  "new_Msg =
     \<lparr>MsgHdr = \<lparr>Msg_Id = 0, Response = False, Opcode = 0, Authoritative = False,
                 Truncated = False, RecursionDesired = False, RecursionAvailable = False,
                 Zero = False, AuthenticatedData = False, CheckingDisabled = False,
                 Rcode = 0\<rparr>,
      Compress = False, Question = [], Answer = [], Ns = [], Extra = []\<rparr>"

text \<open>
  \<open>func (dns *Msg) SetReply(request *Msg) *Msg\<close> of the DNS library: the receiver takes
  the request's id and opcode, becomes a response, copies the RD and CD bits of a standard
  query, has its response code reset to \<open>RcodeSuccess\<close>, and its question section
  replaced by the request's first question (when the request has one). The record
  sections are left as they are.
\<close>

definition SetReply :: "Msg \<Rightarrow> Msg \<Rightarrow> Msg" where
  "SetReply dns request =
     (let h1 = (MsgHdr dns)\<lparr>Msg_Id := Msg_Id (MsgHdr request), Response := True,
                              Opcode := Opcode (MsgHdr request)\<rparr>;
          h2 = (if Opcode h1 = OpcodeQuery
                then h1\<lparr>RecursionDesired := RecursionDesired (MsgHdr request),
                        CheckingDisabled := CheckingDisabled (MsgHdr request)\<rparr>
                else h1);
          h3 = h2\<lparr>Rcode := RcodeSuccess\<rparr>
      in dns\<lparr>MsgHdr := h3,
              Question := (case Question request of [] \<Rightarrow> Question dns | q # _ \<Rightarrow> [q])\<rparr>)"

text \<open>\<open>func (dns *Msg) SetRcode(request *Msg, rcode int) *Msg\<close>: \<open>SetReply\<close>, then the code.\<close>

definition SetRcode :: "Msg \<Rightarrow> Msg \<Rightarrow> int \<Rightarrow> Msg" where
  "SetRcode dns request rcode =
     (let dns1 = SetReply dns request
      in dns1\<lparr>MsgHdr := (MsgHdr dns1)\<lparr>Rcode := rcode\<rparr>\<rparr>)"

text \<open>
  \<open>func (dns *Msg) CopyTo(r1 *Msg) *Msg\<close>: header, compression flag and the three record
  sections of the receiver overwrite those of \<open>r1\<close> (records are copied by value); the
  question section is overwritten only when the receiver has a question.
\<close>

definition CopyTo :: "Msg \<Rightarrow> Msg \<Rightarrow> Msg" where
  "CopyTo dns r1 =
     r1\<lparr>MsgHdr := MsgHdr dns, Compress := Compress dns,
        Question := (if length (Question dns) > 0 then Question dns else Question r1),
        Answer := Answer dns, Ns := Ns dns, Extra := Extra dns\<rparr>"

section \<open>Strings\<close>

text \<open>\<open>strings.HasSuffix\<close>.\<close>

definition HasSuffix :: "string \<Rightarrow> string \<Rightarrow> bool" where
  "HasSuffix s suffix =
     (length s \<ge> length suffix \<and> drop (length s - length suffix) s = suffix)"

definition isASCII :: "char \<Rightarrow> bool" where
  "isASCII c = ((of_char c :: nat) < 128)"

definition lowerByte :: "char \<Rightarrow> char" where
  "lowerByte c =
     (let n = (of_char c :: nat) in if 65 \<le> n \<and> n \<le> 90 then char_of (n + 32) else c)"

text \<open>
  The file system, the document decoders, the address parser, the Unicode tables and the
  network are outside the program. They are taken as given:
  \<^item> \<open>unicode_ToLower\<close> is \<open>strings.Map(unicode.ToLower, s)\<close>, which \<open>strings.ToLower\<close>
    falls back to on a string with a byte outside ASCII;
  \<^item> \<open>ParseIP\<close> is \<open>net.ParseIP\<close>: the address bytes, \<open>nil\<close> (the empty list) when the
    text is not an IP address;
  \<^item> \<open>os_Open\<close> opens a file by name;
  \<^item> \<open>Client_Exchange k r addr\<close> is the outcome of the \<open>k\<close>-th upstream exchange made
    while one request is handled (counting from 0), for the message \<open>r\<close> sent to
    \<open>addr\<close>: an error, or the upstream's response message.
  A file is what its two readers see in it: the result of decoding it as a YAML document,
  and the successive results of the CSV reader's record scanner up to the end of the file
  (each an error or the fields of one record, before any check of the field count).
\<close>

record File =
  yaml_Decode :: "error + Config"
  csv_scan :: "(error + string list) list"

record library =
  unicode_ToLower :: "string \<Rightarrow> string"
  ParseIP :: "string \<Rightarrow> uint8 list"
  os_Open :: "string \<Rightarrow> error + File"
  Client_Exchange :: "nat \<Rightarrow> Msg \<Rightarrow> string \<Rightarrow> error + Msg"

text \<open>
  \<open>strings.ToLower\<close>: on an ASCII-only string the bytes \<open>A\<close> to \<open>Z\<close> are moved to
  \<open>a\<close> to \<open>z\<close>; any other string goes through the Unicode mapping.
\<close>

definition ToLower :: "library \<Rightarrow> string \<Rightarrow> string" where
  "ToLower lib s = (if list_all isASCII s then map lowerByte s else unicode_ToLower lib s)"

section \<open>Program state and effects\<close>

text \<open>
  The package-level variables the handler and the loader use. \<open>queryLog\<close> is the open
  log file (\<open>None\<close> for \<open>nil\<close>), identified by its path.
\<close>

record globals =
  dnsRecords :: "string \<rightharpoonup> RR list"
  forwarder :: string
  queryLogging :: bool
  queryLog :: "string option"
  enableForwarding :: bool

text \<open>One constructor for each \<open>log.Printf\<close> and \<open>log.Println\<close> of the program, with its arguments.\<close>

datatype logline =
    LogLoadingZone string string
  | LogCsvEmpty
  | LogInvalidRecordFormat nat "string list"
  | LogInvalidTTL nat string error
  | LogZoneLoaded
  | LogUnsupportedType string
  | LogLoadedRecord string string uint32 string
  | LogReceivedQuery string
  | LogFoundLocal string
  | LogRespondingLocal
  | LogKeyExists string
  | LogNoLocal string
  | LogErrorForwarding error

text \<open>
  What handling a request does to the outside, in order: a diagnostic, a line appended to
  the query log, an exchange with the upstream server, a message written to the client.
\<close>

datatype event =
    Log logline
  | QueryLogWrite string
  | ExchangeCall Msg string
  | WriteMsg Msg

fun isExchangeCall :: "event \<Rightarrow> bool" where
  "isExchangeCall (ExchangeCall _ _) = True"
| "isExchangeCall _ = False"

section \<open>Loading the zone\<close>

text \<open>
  \<open>strconv.ParseUint(s, 10, bitSize)\<close>: the empty string and any byte that is not a
  decimal digit are syntax errors (a letter is a digit of a base above ten, refused for
  base ten; no sign and no underscore is accepted); a value above \<open>2 ^ bitSize - 1\<close>
  is a range error. The accumulator is a \<open>uint64\<close>, with the library's two overflow
  checks.
\<close>

definition isDigit :: "char \<Rightarrow> bool" where
  "isDigit c = (48 \<le> (of_char c :: nat) \<and> (of_char c :: nat) \<le> 57)"

definition cutoff10 :: uint64 where
  "cutoff10 = 18446744073709551615 div 10 + 1"

fun parseDigits :: "uint64 \<Rightarrow> uint64 \<Rightarrow> string \<Rightarrow> error + uint64" where
  "parseDigits maxVal n [] = Inr n"
| "parseDigits maxVal n (c # cs) =
     (if \<not> isDigit c then Inl ErrSyntax
      else
        let d = (of_nat (of_char c - 48) :: uint64) in
        if n \<ge> cutoff10 then Inl ErrRange
        else
          let n' = n * 10; n1 = n' + d in
          if n1 < n' \<or> n1 > maxVal then Inl ErrRange
          else parseDigits maxVal n1 cs)"

definition ParseUint10 :: "string \<Rightarrow> nat \<Rightarrow> error + uint64" where
  "ParseUint10 s bitSize =
     (if s = [] then Inl ErrSyntax
      else parseDigits (push_bit bitSize 1 - 1) 0 s)"

definition parseTTL :: "string \<Rightarrow> error + uint32" where
  "parseTTL ttlStr =
     (case ParseUint10 ttlStr 32 of
        Inl err \<Rightarrow> Inl (ErrParsingTTL err)
      | Inr ttlInt \<Rightarrow> Inr (ucast ttlInt))"

text \<open>
  \<open>addRecord\<close>: the owner name gets its trailing dot, the record is built by type
  (any other type is logged and dropped), and it is appended to the list stored under the
  lower-cased name. The function returns nothing and has no error result.
\<close>

definition addRecord :: "library \<Rightarrow> Record \<Rightarrow> globals \<Rightarrow> globals \<times> logline list" where
  "addRecord lib record0 g =
     (let rec = (if \<not> HasSuffix (Name record0) ''.''
                 then record0\<lparr>Name := Name record0 @ ''.''\<rparr> else record0);
          store = (\<lambda>rr.
            (g\<lparr>dnsRecords := (dnsRecords g)(ToLower lib (Name rec) \<mapsto>
                 (case dnsRecords g (ToLower lib (Name rec)) of None \<Rightarrow> [] | Some rs \<Rightarrow> rs) @ [rr])\<rparr>,
             [LogLoadedRecord (Name rec) (Type rec) (TTL rec) (Data rec)]))
      in
      if Type rec = ''A'' then
        store (dns_A \<lparr>Hdr_Name = Name rec, Rrtype = TypeA, Class = ClassINET,
                      Ttl = TTL rec, Rdlength = 0\<rparr> (ParseIP lib (Data rec)))
      else if Type rec = ''CNAME'' then
        store (dns_CNAME \<lparr>Hdr_Name = Name rec, Rrtype = TypeCNAME, Class = ClassINET,
                          Ttl = TTL rec, Rdlength = 0\<rparr> (Data rec))
      else (g, [LogUnsupportedType (Type rec)]))"

text \<open>The loop of the YAML branch: \<open>addRecord\<close> on every entry, in order.\<close>

fun addRecords :: "library \<Rightarrow> Record list \<Rightarrow> globals \<Rightarrow> globals \<times> logline list" where
  "addRecords lib [] g = (g, [])"
| "addRecords lib (rec # rest) g =
     (let (g1, l1) = addRecord lib rec g;
          (g2, l2) = addRecords lib rest g1
      in (g2, l1 @ l2))"

text \<open>
  \<open>csv.Reader.ReadAll\<close> with the reader as the program configures it. The program sets
  \<open>TrimLeadingSpace\<close> and \<open>LazyQuotes\<close>, which act inside the scanner, and leaves
  \<open>FieldsPerRecord\<close> at its zero value. The reader's rule for that field: when it is
  positive, a record with another number of fields is the error \<open>ErrFieldCount\<close>; when
  it is zero, the first record read sets it to its own number of fields; when it is
  negative, nothing is checked. \<open>ReadAll\<close> returns the first error and no records.
\<close>

fun ReadAll :: "int \<Rightarrow> string list list \<Rightarrow> (error + string list) list \<Rightarrow> error + string list list" where
  "ReadAll FieldsPerRecord records [] = Inr records"
| "ReadAll FieldsPerRecord records (Inl err # rest) = Inl err"
| "ReadAll FieldsPerRecord records (Inr dst # rest) =
     (if FieldsPerRecord > 0 then
        (if int (length dst) \<noteq> FieldsPerRecord then Inl ErrFieldCount
         else ReadAll FieldsPerRecord (records @ [dst]) rest)
      else if FieldsPerRecord = 0 then ReadAll (int (length dst)) (records @ [dst]) rest
      else ReadAll FieldsPerRecord (records @ [dst]) rest)"

text \<open>The body of the loop over the data rows; \<open>i\<close> is the index in \<open>records[1:]\<close>.\<close>

definition csvRow :: "library \<Rightarrow> nat \<Rightarrow> string list \<Rightarrow> globals \<Rightarrow> globals \<times> logline list" where
  "csvRow lib i rec g =
     (if length rec \<noteq> 4 then (g, [LogInvalidRecordFormat (i + 2) rec])
      else
        case parseTTL (rec ! 2) of
          Inl err \<Rightarrow> (g, [LogInvalidTTL (i + 2) (rec ! 2) err])
        | Inr ttl \<Rightarrow>
            addRecord lib \<lparr>Name = rec ! 0, Type = rec ! 1, TTL = ttl, Data = rec ! 3\<rparr> g)"

fun csvRows :: "library \<Rightarrow> nat \<Rightarrow> string list list \<Rightarrow> globals \<Rightarrow> globals \<times> logline list" where
  "csvRows lib i [] g = (g, [])"
| "csvRows lib i (rec # rest) g =
     (let (g1, l1) = csvRow lib i rec g;
          (g2, l2) = csvRows lib (i + 1) rest g1
      in (g2, l1 @ l2))"

text \<open>
  \<open>loadZoneData\<close>: the returned error (\<open>None\<close> for \<open>nil\<close>), the globals afterwards and
  the diagnostics. The record table is replaced by an empty one as soon as the file is open.
\<close>

definition loadZoneData ::
  "library \<Rightarrow> string \<Rightarrow> string \<Rightarrow> globals \<Rightarrow> error option \<times> globals \<times> logline list" where
  "loadZoneData lib filename format g =
     (case os_Open lib filename of
        Inl err \<Rightarrow> (Some (ErrOpeningFile filename err), g, [LogLoadingZone filename format])
      | Inr file \<Rightarrow>
          let g0 = g\<lparr>dnsRecords := Map.empty\<rparr> in
          if format = ''yaml'' then
            (case yaml_Decode file of
               Inl err \<Rightarrow> (Some (ErrDecodingYAML filename err), g0,
                           [LogLoadingZone filename format])
             | Inr config \<Rightarrow>
                 let (g1, l1) = addRecords lib (Records config) g0
                 in (None, g1, [LogLoadingZone filename format] @ l1 @ [LogZoneLoaded]))
          else if format = ''csv'' then
            (case ReadAll 0 [] (csv_scan file) of
               Inl err \<Rightarrow> (Some (ErrReadingCSV filename err), g0,
                           [LogLoadingZone filename format])
             | Inr records \<Rightarrow>
                 if length records \<le> 1 then
                   (None, g0, [LogLoadingZone filename format, LogCsvEmpty])
                 else
                   let (g1, l1) = csvRows lib 0 (tl records) g0
                   in (None, g1, [LogLoadingZone filename format] @ l1 @ [LogZoneLoaded]))
          else (Some (ErrUnsupportedFormat format), g0, [LogLoadingZone filename format]))"

section \<open>Handling a request\<close>

text \<open>\<open>logQuery\<close>: one line in the query log, when logging is on and the file is open.\<close>

definition logQuery :: "globals \<Rightarrow> string \<Rightarrow> string \<Rightarrow> event list" where
  "logQuery g query responseType =
     (if queryLogging g \<and> queryLog g \<noteq> None
      then [QueryLogWrite (''Query: '' @ query @ '', Response: '' @ responseType @ [CHR 0x0A])]
      else [])"

text \<open>The key a question is looked up under: trailing dot added when missing, then lower case.\<close>

definition queryKey :: "library \<Rightarrow> string \<Rightarrow> string" where
  "queryKey lib name =
     ToLower lib (if \<not> HasSuffix name ''.'' then name @ ''.'' else name)"

text \<open>
  The body of the loop over \<open>r.Question\<close>, for the question \<open>question\<close>, with the reply
  \<open>m\<close> built so far and \<open>k\<close> upstream exchanges made so far. It yields the events of
  this iteration and, when the loop goes on, the reply and the exchange count afterwards;
  \<open>None\<close> is the \<open>return\<close> after a forwarded response has been written.
\<close>

definition handleQuestion ::
  "library \<Rightarrow> globals \<Rightarrow> Msg \<Rightarrow> nat \<Rightarrow> Msg \<Rightarrow> Question \<Rightarrow> event list \<times> (Msg \<times> nat) option" where
  "handleQuestion lib g r k m question =
     (let queryName = queryKey lib (Q_Name question) in
      case dnsRecords g queryName of
        Some records \<Rightarrow>
          if length records > 0 then
            ([Log (LogReceivedQuery (Q_Name question)), Log (LogFoundLocal (Q_Name question)),
              Log LogRespondingLocal]
               @ logQuery g (Q_Name question) ''Authoritative response'',
             Some (m\<lparr>Answer := Answer m @ records\<rparr>, k))
          else
            ([Log (LogReceivedQuery (Q_Name question)), Log (LogFoundLocal (Q_Name question)),
              Log (LogKeyExists (Q_Name question))],
             Some (m, k))
      | None \<Rightarrow>
          if enableForwarding g \<and> forwarder g \<noteq> [] then
            (case Client_Exchange lib k r (forwarder g @ '':53'') of
               Inr resp \<Rightarrow>
                 ([Log (LogReceivedQuery (Q_Name question)), Log (LogNoLocal (Q_Name question)),
                   ExchangeCall r (forwarder g @ '':53''),
                   WriteMsg (SetReply (CopyTo resp m) r)]
                    @ logQuery g (Q_Name question) ''Forwarded response'',
                  None)
             | Inl err \<Rightarrow>
                 ([Log (LogReceivedQuery (Q_Name question)), Log (LogNoLocal (Q_Name question)),
                   ExchangeCall r (forwarder g @ '':53''),
                   Log (LogErrorForwarding err)]
                    @ logQuery g (Q_Name question) ''NXDOMAIN response'',
                  Some (SetRcode m r RcodeNameError, k + 1)))
          else
            ([Log (LogReceivedQuery (Q_Name question)), Log (LogNoLocal (Q_Name question))]
               @ logQuery g (Q_Name question) ''NXDOMAIN response'',
             Some (SetRcode m r RcodeNameError, k)))"

text \<open>The loop \<open>for _, question := range r.Question\<close>, left early by the \<open>return\<close>.\<close>

fun forQuestions ::
  "library \<Rightarrow> globals \<Rightarrow> Msg \<Rightarrow> Question list \<Rightarrow> nat \<Rightarrow> Msg \<Rightarrow> event list \<times> (Msg \<times> nat) option" where
  "forQuestions lib g r [] k m = ([], Some (m, k))"
| "forQuestions lib g r (question # rest) k m =
     (case handleQuestion lib g r k m question of
        (evs, None) \<Rightarrow> (evs, None)
      | (evs, Some (m1, k1)) \<Rightarrow>
          (case forQuestions lib g r rest k1 m1 of (evs1, res) \<Rightarrow> (evs @ evs1, res)))"

text \<open>
  \<open>handleRequest\<close>: the events of handling the request \<open>r\<close>. The reply starts as
  \<open>new(dns.Msg)\<close> made a reply to \<open>r\<close>; when the loop runs to its end the reply is written.
\<close>

definition handleRequest :: "library \<Rightarrow> globals \<Rightarrow> Msg \<Rightarrow> event list" where
  "handleRequest lib g r =
     (case forQuestions lib g r (Question r) 0 (SetReply new_Msg r) of
        (evs, None) \<Rightarrow> evs
      | (evs, Some (m, k)) \<Rightarrow> evs @ [WriteMsg m])"

text \<open>The messages the client receives: those written, in order.\<close>

fun written :: "event list \<Rightarrow> Msg list" where
  "written [] = []"
| "written (WriteMsg m # evs) = m # written evs"
| "written (_ # evs) = written evs"

section \<open>Example inputs\<close>

text \<open>
  The zone of the program's documentation, one entry of it: \<open>example.com A 600 192.0.2.1\<close>,
  as \<open>addRecord\<close> stores it; the settings of the sample configuration (forwarder
  \<open>1.1.1.1\<close>, forwarding and query logging on); and a standard query with one question.
\<close>

definition example_ip :: "uint8 list" where
  "example_ip = [0, 0, 0, 0, 0, 0, 0, 0, 0, 0, 255, 255, 192, 0, 2, 1]"

definition example_rr :: RR where
  "example_rr =
     dns_A \<lparr>Hdr_Name = ''example.com.'', Rrtype = TypeA, Class = ClassINET, Ttl = 600,
            Rdlength = 0\<rparr> example_ip"

definition example_globals :: globals where
  "example_globals =
     \<lparr>dnsRecords = [''example.com.'' \<mapsto> [example_rr]], forwarder = ''1.1.1.1'',
      queryLogging = True, queryLog = Some ''query.log'', enableForwarding = True\<rparr>"

definition query_hdr :: MsgHdr where
  "query_hdr =
     \<lparr>Msg_Id = 7, Response = False, Opcode = OpcodeQuery, Authoritative = False,
      Truncated = False, RecursionDesired = True, RecursionAvailable = False,
      Zero = False, AuthenticatedData = False, CheckingDisabled = False,
      Rcode = RcodeSuccess\<rparr>"

definition mkQuestion :: "string \<Rightarrow> uint16 \<Rightarrow> Question" where
  "mkQuestion name qtype = \<lparr>Q_Name = name, Qtype = qtype, Qclass = ClassINET\<rparr>"

definition query :: "Question list \<Rightarrow> Msg" where
  "query qs =
     \<lparr>MsgHdr = query_hdr, Compress = False, Question = qs, Answer = [], Ns = [], Extra = []\<rparr>"

text \<open>
  An upstream answer to such a query, as a resolver sends it: the query's id, opcode, RD
  bit and question, the response and RA bits set, the given response code and answers.
\<close>

definition upstream_response :: "Question list \<Rightarrow> int \<Rightarrow> RR list \<Rightarrow> Msg" where
  "upstream_response qs rcode answers =
     \<lparr>MsgHdr = query_hdr\<lparr>Response := True, RecursionAvailable := True, Rcode := rcode\<rparr>,
      Compress = False, Question = qs, Answer = answers, Ns = [], Extra = []\<rparr>"

text \<open>
  Three surroundings: one whose upstream never answers, one whose upstream answers every
  exchange with the given message, and one whose upstream times out on the first exchange
  and answers from the second on. In all of them no file can be opened unless given, and
  \<open>ParseIP\<close> knows the one address of the example zone in the two ways it can be
  written: \<open>net.ParseIP\<close> gives the same sixteen bytes for the IPv4 text \<open>192.0.2.1\<close>
  and for the IPv4-mapped IPv6 text \<open>::ffff:192.0.2.1\<close>.
\<close>

definition example_ParseIP :: "string \<Rightarrow> uint8 list" where
  "example_ParseIP s =
     (if s = ''192.0.2.1'' \<or> s = ''::ffff:192.0.2.1'' then example_ip else [])"

definition lib_unreachable :: library where
  "lib_unreachable =
     \<lparr>unicode_ToLower = (\<lambda>s. s), ParseIP = example_ParseIP,
      os_Open = (\<lambda>f. Inl (ErrExternal ''no such file or directory'')),
      Client_Exchange = (\<lambda>k r addr. Inl (ErrExternal ''i/o timeout''))\<rparr>"

definition lib_answering :: "Msg \<Rightarrow> library" where
  "lib_answering resp = lib_unreachable\<lparr>Client_Exchange := (\<lambda>k r addr. Inr resp)\<rparr>"

definition lib_flaky :: "Msg \<Rightarrow> library" where
  "lib_flaky resp =
     lib_unreachable\<lparr>Client_Exchange :=
       (\<lambda>k r addr. if k = 0 then Inl (ErrExternal ''i/o timeout'') else Inr resp)\<rparr>"

definition lib_with_file :: "string \<Rightarrow> File \<Rightarrow> library" where
  "lib_with_file name file =
     lib_unreachable\<lparr>os_Open :=
       (\<lambda>f. if f = name then Inr file else Inl (ErrExternal ''no such file or directory''))\<rparr>"

definition csv_file :: "string list list \<Rightarrow> File" where
  "csv_file rows =
     \<lparr>yaml_Decode = Inl (ErrExternal ''cannot unmarshal''), csv_scan = map Inr rows\<rparr>"

text \<open>
  A message with three questions (fully qualified names, as a message on the wire has
  them), and an upstream answer to it. Of its names only \<open>example.com.\<close> is in the
  example zone.
\<close>

definition example_multi :: Msg where
  "example_multi =
     query [mkQuestion ''example.com.'' TypeA, mkQuestion ''nosuch.example.com.'' TypeA,
            mkQuestion ''other.example.com.'' TypeA]"

definition example_answer :: Msg where
  "example_answer = upstream_response (Question example_multi) RcodeSuccess []"

text \<open>Whether a record is in the list stored under a key.\<close>

definition stored :: "globals \<Rightarrow> string \<Rightarrow> RR \<Rightarrow> bool" where
  "stored g key rr = (case dnsRecords g key of None \<Rightarrow> False | Some rs \<Rightarrow> List.member rs rr)"

text \<open>The owner name with its trailing dot, as \<open>addRecord\<close> puts it in the record's header.\<close>

definition dotted :: "string \<Rightarrow> string" where
  "dotted name = (if \<not> HasSuffix name ''.'' then name @ ''.'' else name)"

text \<open>What the record table holds for a question, and whether it holds anything.\<close>

definition localRecords :: "library \<Rightarrow> globals \<Rightarrow> Question \<Rightarrow> RR list" where
  "localRecords lib g q =
     (case dnsRecords g (queryKey lib (Q_Name q)) of None \<Rightarrow> [] | Some rs \<Rightarrow> rs)"

definition noLocalAnswer :: "library \<Rightarrow> globals \<Rightarrow> Question \<Rightarrow> bool" where
  "noLocalAnswer lib g q = (dnsRecords g (queryKey lib (Q_Name q)) = None)"

text \<open>A zone entry of type A whose data is no address, after a good one, as a YAML file.\<close>

definition bad_entry :: Record where
  "bad_entry = \<lparr>Name = ''bad.example.com'', Type = ''A'', TTL = 300, Data = ''not-an-ip''\<rparr>"

definition yaml_file :: "Record list \<Rightarrow> File" where
  "yaml_file entries = \<lparr>yaml_Decode = Inr \<lparr>Records = entries\<rparr>, csv_scan = []\<rparr>"

text \<open>The same entry as a row of a CSV file, and an entry of type A with IPv4-mapped data.\<close>

definition bad_row :: "string list" where
  "bad_row = [''bad.example.com'', ''A'', ''300'', ''not-an-ip'']"

definition mapped_entry :: Record where
  "mapped_entry =
     \<lparr>Name = ''mapped.example.com'', Type = ''A'', TTL = 300, Data = ''::ffff:192.0.2.1''\<rparr>"

text \<open>
  Following the spec's words, for comparison with the code. Case folding of a name: each
  capital letter of the alphabet goes to its small letter, every other byte stays.
\<close>

definition spec_foldCase :: "char \<Rightarrow> char" where
  "spec_foldCase c =
     (case map_of (zip ''ABCDEFGHIJKLMNOPQRSTUVWXYZ'' ''abcdefghijklmnopqrstuvwxyz'') c of
        None \<Rightarrow> c | Some l \<Rightarrow> l)"

text \<open>
  Following the spec's words: a valid IPv4 literal is dotted decimal, four fields of one
  to three digits, each at most 255 and without a leading zero.
\<close>

fun splitDots :: "string \<Rightarrow> string list" where
  "splitDots [] = [[]]"
| "splitDots (c # cs) =
     (if c = CHR ''.'' then [] # splitDots cs
      else (case splitDots cs of [] \<Rightarrow> [[c]] | f # fs \<Rightarrow> (c # f) # fs))"

definition isOctet :: "string \<Rightarrow> bool" where
  "isOctet s =
     (s \<noteq> [] \<and> length s \<le> 3 \<and> list_all isDigit s
      \<and> (length s = 1 \<or> hd s \<noteq> CHR ''0'')
      \<and> foldl (\<lambda>a c. 10 * a + (of_char c - 48)) 0 s \<le> (255 :: nat))"

definition isIPv4Literal :: "string \<Rightarrow> bool" where
  "isIPv4Literal s = (length (splitDots s) = 4 \<and> list_all isOctet (splitDots s))"

section \<open>Evaluation and helper facts\<close>

lemmas char_eval = isASCII_def lowerByte_def char_of_def bit_Suc_0_iff

lemmas key_eval = queryKey_def ToLower_def HasSuffix_def char_eval

lemmas fixture_defs = example_globals_def example_rr_def example_ip_def query_hdr_def
  mkQuestion_def query_def upstream_response_def example_ParseIP_def lib_unreachable_def
  lib_answering_def lib_flaky_def lib_with_file_def csv_file_def example_multi_def
  example_answer_def

lemmas const_defs = TypeA_def TypeCNAME_def TypeAAAA_def ClassINET_def OpcodeQuery_def
  RcodeSuccess_def RcodeNameError_def

lemma logQuery_config [simp]:
  "logQuery (g\<lparr>enableForwarding := ef\<rparr>) n t = logQuery g n t"
  "logQuery (g\<lparr>forwarder := fw\<rparr>) n t = logQuery g n t"
  "logQuery (g\<lparr>dnsRecords := d\<rparr>) n t = logQuery g n t"
  by (simp_all add: logQuery_def)

lemma logQuery_no_exchange [simp]: "\<not> list_ex isExchangeCall (logQuery g n t)"
  by (simp add: logQuery_def)

lemma written_append [simp]: "written (xs @ ys) = written xs @ written ys"
  by (induction xs rule: written.induct) simp_all

lemma written_logQuery [simp]: "written (logQuery g n t) = []"
  by (simp add: logQuery_def)

lemma Rcode_SetRcode [simp]: "Rcode (MsgHdr (SetRcode m r rcode)) = rcode"
  by (simp add: SetRcode_def Let_def)

lemma Answer_SetRcode [simp]: "Answer (SetRcode m r rcode) = Answer m"
  by (simp add: SetRcode_def SetReply_def Let_def)

lemma Answer_SetReply [simp]: "Answer (SetReply m r) = Answer m"
  by (simp add: SetReply_def Let_def)

lemma Answer_new_Msg [simp]: "Answer new_Msg = []"
  by (simp add: new_Msg_def)

lemma queryKey_dotted: "queryKey lib name = ToLower lib (dotted name)"
  by (simp add: queryKey_def dotted_def)

text \<open>An iteration writes to the client exactly when it ends the handler.\<close>

lemma handleQuestion_written:
  "handleQuestion lib g r k m q = (evs, res) \<Longrightarrow>
     length (written evs) = (case res of None \<Rightarrow> 1 | Some _ \<Rightarrow> 0)"
  by (auto simp: handleQuestion_def Let_def split: option.splits if_splits sum.splits)

lemma forQuestions_written:
  "forQuestions lib g r qs k m = (evs, res) \<Longrightarrow>
     length (written evs) = (case res of None \<Rightarrow> 1 | Some _ \<Rightarrow> 0)"
proof (induction qs arbitrary: k m evs res)
  case Nil
  then show ?case by auto
next
  case (Cons q qs)
  obtain e1 r1 where h: "handleQuestion lib g r k m q = (e1, r1)"
    by (cases "handleQuestion lib g r k m q")
  show ?case
  proof (cases r1)
    case None
    with h Cons.prems handleQuestion_written [OF h] show ?thesis by auto
  next
    case (Some a)
    obtain m1 k1 where a: "a = (m1, k1)" by (cases a)
    obtain e2 r2 where f: "forQuestions lib g r qs k1 m1 = (e2, r2)"
      by (cases "forQuestions lib g r qs k1 m1")
    from Cons.prems h Some a f have "evs = e1 @ e2" "res = r2" by auto
    with handleQuestion_written [OF h] Cons.IH [OF f] Some show ?thesis by simp
  qed
qed

text \<open>The handler always returns, and the client gets exactly one message.\<close>

lemma handleRequest_writes_once: "length (written (handleRequest lib g r)) = 1"
proof -
  obtain evs res where f: "forQuestions lib g r (Question r) 0 (SetReply new_Msg r) = (evs, res)"
    by (cases "forQuestions lib g r (Question r) 0 (SetReply new_Msg r)")
  from forQuestions_written [OF f] f show ?thesis
    by (cases res) (auto simp: handleRequest_def)
qed

text \<open>The loop over a list of questions split in two.\<close>

lemma forQuestions_append:
  "forQuestions lib g r (pre @ post) k m =
     (case forQuestions lib g r pre k m of
        (evs, None) \<Rightarrow> (evs, None)
      | (evs, Some (m1, k1)) \<Rightarrow>
          (case forQuestions lib g r post k1 m1 of (evs1, res) \<Rightarrow> (evs @ evs1, res)))"
proof (induction pre arbitrary: k m)
  case Nil
  show ?case by (simp split: prod.splits)
next
  case (Cons q pre)
  show ?case
    by (simp add: Cons.IH split: prod.splits option.splits)
qed

section \<open>Local answers, forwarding and negative answers\<close>

text \<open>
  C1. A question whose normalized name (trailing dot added, lower case) is a key of the
  record table is answered from the table: the iteration appends the records stored under
  that key to the answer section and goes on to the next question, it leaves everything
  else of the reply as it was, and it makes no upstream exchange, whatever the forwarding
  switch and the upstream address are. The query log gets the line
  \<open>Authoritative response\<close> (for the non-empty record lists that loading produces).
\<close>

theorem local_name_answered_without_forwarding:
  assumes "dnsRecords g (queryKey lib (Q_Name q)) = Some records"
  shows "handleQuestion lib (g\<lparr>enableForwarding := ef, forwarder := fw\<rparr>) r k m q =
           ([Log (LogReceivedQuery (Q_Name q)), Log (LogFoundLocal (Q_Name q))] @
              (if records = [] then [Log (LogKeyExists (Q_Name q))]
               else Log LogRespondingLocal # logQuery g (Q_Name q) ''Authoritative response''),
            Some (m\<lparr>Answer := Answer m @ records\<rparr>, k))
         \<and> \<not> list_ex isExchangeCall
               (fst (handleQuestion lib (g\<lparr>enableForwarding := ef, forwarder := fw\<rparr>) r k m q))"
  using assms by (simp add: handleQuestion_def)

theorem local_name_answered_without_forwarding_witness:
  "dnsRecords example_globals (queryKey (lib_answering new_Msg) (Q_Name (mkQuestion ''Example.COM'' TypeA)))
     = Some [example_rr]
   \<and> handleQuestion (lib_answering new_Msg)
        (example_globals\<lparr>enableForwarding := True, forwarder := ''1.1.1.1''\<rparr>)
        (query [mkQuestion ''Example.COM'' TypeA]) 0 new_Msg (mkQuestion ''Example.COM'' TypeA) =
      ([Log (LogReceivedQuery ''Example.COM''), Log (LogFoundLocal ''Example.COM''),
        Log LogRespondingLocal,
        QueryLogWrite (''Query: Example.COM, Response: Authoritative response'' @ [CHR 0x0A])],
       Some (new_Msg\<lparr>Answer := [example_rr]\<rparr>, 0))"
proof -
  have key: "dnsRecords example_globals
      (queryKey (lib_answering new_Msg) (Q_Name (mkQuestion ''Example.COM'' TypeA)))
     = Some [example_rr]"
    by (simp add: key_eval example_globals_def mkQuestion_def)
  show ?thesis
    using key
      local_name_answered_without_forwarding [OF key, where ef = True and fw = "''1.1.1.1''"
        and r = "query [mkQuestion ''Example.COM'' TypeA]" and k = 0 and m = new_Msg]
    by (simp add: logQuery_def example_globals_def mkQuestion_def example_rr_def new_Msg_def)
qed

text \<open>
  C2. A question whose normalized name is not a key of the record table, with forwarding
  switched off: whatever the upstream address is (empty or not), no exchange is made, the
  reply's response code is set to NXDOMAIN, the query log gets the line
  \<open>NXDOMAIN response\<close>, and the loop goes on.
\<close>

theorem forwarding_disabled_gives_nxdomain:
  assumes "dnsRecords g (queryKey lib (Q_Name q)) = None"
  shows "handleQuestion lib (g\<lparr>enableForwarding := False, forwarder := fw\<rparr>) r k m q =
           ([Log (LogReceivedQuery (Q_Name q)), Log (LogNoLocal (Q_Name q))]
              @ logQuery g (Q_Name q) ''NXDOMAIN response'',
            Some (SetRcode m r RcodeNameError, k))
         \<and> Rcode (MsgHdr (SetRcode m r RcodeNameError)) = RcodeNameError"
  using assms by (simp add: handleQuestion_def)

theorem forwarding_disabled_gives_nxdomain_witness:
  "dnsRecords example_globals
       (queryKey (lib_answering new_Msg) (Q_Name (mkQuestion ''nosuch.example.com.'' TypeA))) = None
   \<and> handleQuestion (lib_answering new_Msg)
        (example_globals\<lparr>enableForwarding := False, forwarder := ''1.1.1.1''\<rparr>)
        (query [mkQuestion ''nosuch.example.com.'' TypeA]) 0
        (SetReply new_Msg (query [mkQuestion ''nosuch.example.com.'' TypeA]))
        (mkQuestion ''nosuch.example.com.'' TypeA) =
      ([Log (LogReceivedQuery ''nosuch.example.com.''), Log (LogNoLocal ''nosuch.example.com.''),
        QueryLogWrite (''Query: nosuch.example.com., Response: NXDOMAIN response'' @ [CHR 0x0A])],
       Some (upstream_response [mkQuestion ''nosuch.example.com.'' TypeA] 3 []
               \<lparr>MsgHdr := query_hdr\<lparr>Response := True, Rcode := 3\<rparr>\<rparr>, 0))"
proof -
  have key: "dnsRecords example_globals
       (queryKey (lib_answering new_Msg) (Q_Name (mkQuestion ''nosuch.example.com.'' TypeA))) = None"
    by (simp add: key_eval example_globals_def mkQuestion_def)
  show ?thesis
    using key
      forwarding_disabled_gives_nxdomain [OF key, where fw = "''1.1.1.1''"
        and r = "query [mkQuestion ''nosuch.example.com.'' TypeA]" and k = 0
        and m = "SetReply new_Msg (query [mkQuestion ''nosuch.example.com.'' TypeA])"]
    by (simp add: logQuery_def fixture_defs const_defs SetRcode_def SetReply_def new_Msg_def)
qed

text \<open>
  C3. A question with no local answer, forwarding switched on and an upstream address
  configured, whose upstream exchange returns an error: the error is logged, the reply's
  response code is set to NXDOMAIN, the query log gets the line \<open>NXDOMAIN response\<close>,
  and the loop goes on. Nothing but a reply reaches the client: the handler writes exactly
  one message for every request.
\<close>

theorem upstream_error_gives_nxdomain:
  assumes "dnsRecords g (queryKey lib (Q_Name q)) = None"
      and "enableForwarding g" and "forwarder g \<noteq> []"
      and "Client_Exchange lib k r (forwarder g @ '':53'') = Inl err"
  shows "handleQuestion lib g r k m q =
           ([Log (LogReceivedQuery (Q_Name q)), Log (LogNoLocal (Q_Name q)),
             ExchangeCall r (forwarder g @ '':53''), Log (LogErrorForwarding err)]
              @ logQuery g (Q_Name q) ''NXDOMAIN response'',
            Some (SetRcode m r RcodeNameError, k + 1))
         \<and> Rcode (MsgHdr (SetRcode m r RcodeNameError)) = RcodeNameError
         \<and> length (written (handleRequest lib g r)) = 1"
  using assms by (simp add: handleQuestion_def handleRequest_writes_once)

theorem upstream_error_gives_nxdomain_witness:
  "dnsRecords example_globals
       (queryKey lib_unreachable (Q_Name (mkQuestion ''nosuch.example.com.'' TypeA))) = None
   \<and> enableForwarding example_globals \<and> forwarder example_globals \<noteq> []
   \<and> Client_Exchange lib_unreachable 0 (query [mkQuestion ''nosuch.example.com.'' TypeA])
        (forwarder example_globals @ '':53'') = Inl (ErrExternal ''i/o timeout'')
   \<and> snd (handleQuestion lib_unreachable example_globals
        (query [mkQuestion ''nosuch.example.com.'' TypeA]) 0
        (SetReply new_Msg (query [mkQuestion ''nosuch.example.com.'' TypeA]))
        (mkQuestion ''nosuch.example.com.'' TypeA)) =
       Some (upstream_response [mkQuestion ''nosuch.example.com.'' TypeA] 3 []
               \<lparr>MsgHdr := query_hdr\<lparr>Response := True, Rcode := 3\<rparr>\<rparr>, 1)"
proof -
  have key: "dnsRecords example_globals
       (queryKey lib_unreachable (Q_Name (mkQuestion ''nosuch.example.com.'' TypeA))) = None"
    by (simp add: key_eval example_globals_def mkQuestion_def)
  have on: "enableForwarding example_globals" and fw: "forwarder example_globals \<noteq> []"
    by (simp_all add: example_globals_def)
  have ex: "Client_Exchange lib_unreachable 0 (query [mkQuestion ''nosuch.example.com.'' TypeA])
        (forwarder example_globals @ '':53'') = Inl (ErrExternal ''i/o timeout'')"
    by (simp add: lib_unreachable_def)
  show ?thesis
    using key on fw ex
      upstream_error_gives_nxdomain [OF key on fw ex,
        where m = "SetReply new_Msg (query [mkQuestion ''nosuch.example.com.'' TypeA])"]
    by (simp add: fixture_defs const_defs SetRcode_def SetReply_def new_Msg_def)
qed

section \<open>Forwarded responses\<close>

text \<open>
  What the client gets when a question is forwarded: the upstream's response copied into
  the reply, then made a reply to the request. The record sections, the compression flag
  and the AA, TC, RA, Z and AD bits are the upstream's; the id and the opcode are the
  request's, the response bit is set, and the response code is \<open>RcodeSuccess\<close>.
\<close>

lemma forwarded_reply_fields:
  "Answer (SetReply (CopyTo resp m) r) = Answer resp"
  "Ns (SetReply (CopyTo resp m) r) = Ns resp"
  "Extra (SetReply (CopyTo resp m) r) = Extra resp"
  "Compress (SetReply (CopyTo resp m) r) = Compress resp"
  "Authoritative (MsgHdr (SetReply (CopyTo resp m) r)) = Authoritative (MsgHdr resp)"
  "Truncated (MsgHdr (SetReply (CopyTo resp m) r)) = Truncated (MsgHdr resp)"
  "RecursionAvailable (MsgHdr (SetReply (CopyTo resp m) r)) = RecursionAvailable (MsgHdr resp)"
  "Zero (MsgHdr (SetReply (CopyTo resp m) r)) = Zero (MsgHdr resp)"
  "AuthenticatedData (MsgHdr (SetReply (CopyTo resp m) r)) = AuthenticatedData (MsgHdr resp)"
  "Msg_Id (MsgHdr (SetReply (CopyTo resp m) r)) = Msg_Id (MsgHdr r)"
  "Opcode (MsgHdr (SetReply (CopyTo resp m) r)) = Opcode (MsgHdr r)"
  "Response (MsgHdr (SetReply (CopyTo resp m) r))"
  "Rcode (MsgHdr (SetReply (CopyTo resp m) r)) = RcodeSuccess"
  by (simp_all add: SetReply_def CopyTo_def Let_def)

text \<open>The forwarded reply does not depend on the reply built before it.\<close>

lemma forwarded_reply_independent:
  "Question r \<noteq> [] \<Longrightarrow> SetReply (CopyTo resp m1) r = SetReply (CopyTo resp m2) r"
  by (cases "Question r") (simp_all add: SetReply_def CopyTo_def Let_def)

text \<open>
  C4. The claim is that the client gets the upstream's response unchanged, response code
  included. The handler copies the upstream's response into the reply and then calls
  \<open>SetReply\<close> on it, which resets the response code. At the query
  \<open>nosuch.example.com.\<close> with an upstream that answers NXDOMAIN (same id, question and
  RD bit as the query), the exchange succeeds with response code 3 and the client gets
  that message with response code 0.
\<close>

theorem forwarded_nxdomain_reaches_client_as_success:
  "Client_Exchange
       (lib_answering (upstream_response [mkQuestion ''nosuch.example.com.'' TypeA] RcodeNameError []))
       0 (query [mkQuestion ''nosuch.example.com.'' TypeA]) ''1.1.1.1:53''
     = Inr (upstream_response [mkQuestion ''nosuch.example.com.'' TypeA] RcodeNameError [])
   \<and> Rcode (MsgHdr (upstream_response [mkQuestion ''nosuch.example.com.'' TypeA] RcodeNameError [])) = 3
   \<and> written (handleRequest
        (lib_answering (upstream_response [mkQuestion ''nosuch.example.com.'' TypeA] RcodeNameError []))
        example_globals (query [mkQuestion ''nosuch.example.com.'' TypeA]))
     = [upstream_response [mkQuestion ''nosuch.example.com.'' TypeA] 0 []]"
  by (simp add: handleRequest_def handleQuestion_def key_eval logQuery_def fixture_defs
        const_defs SetReply_def CopyTo_def new_Msg_def)

text \<open>
  C5. In a message whose questions are \<open>pre\<close>, then \<open>q\<close>, then \<open>post\<close>: when the loop
  gets through \<open>pre\<close> without returning, \<open>q\<close> has no local answer, forwarding is on with an
  upstream address, and the exchange for \<open>q\<close> succeeds with \<open>resp\<close>, the handler's events
  are those of \<open>pre\<close> and of \<open>q\<close> and nothing after them. The one message written is the
  forwarded reply, built from \<open>resp\<close> and the request only: the questions of \<open>post\<close> are
  not processed and add nothing to it (nor do the answers of \<open>pre\<close>).
\<close>

theorem forward_success_ends_the_handler:
  assumes "Question r = pre @ q # post"
      and "forQuestions lib g r pre 0 (SetReply new_Msg r) = (evs, Some (m1, k1))"
      and "dnsRecords g (queryKey lib (Q_Name q)) = None"
      and "enableForwarding g" and "forwarder g \<noteq> []"
      and "Client_Exchange lib k1 r (forwarder g @ '':53'') = Inr resp"
  shows "handleRequest lib g r =
           evs @ [Log (LogReceivedQuery (Q_Name q)), Log (LogNoLocal (Q_Name q)),
                  ExchangeCall r (forwarder g @ '':53''),
                  WriteMsg (SetReply (CopyTo resp new_Msg) r)]
               @ logQuery g (Q_Name q) ''Forwarded response''
         \<and> written (handleRequest lib g r) = [SetReply (CopyTo resp new_Msg) r]"
proof -
  have ne: "Question r \<noteq> []"
    using assms(1) by simp
  have step: "handleQuestion lib g r k1 m1 q =
      ([Log (LogReceivedQuery (Q_Name q)), Log (LogNoLocal (Q_Name q)),
        ExchangeCall r (forwarder g @ '':53''), WriteMsg (SetReply (CopyTo resp new_Msg) r)]
         @ logQuery g (Q_Name q) ''Forwarded response'', None)"
    using assms(3-6) forwarded_reply_independent [OF ne, of resp m1 new_Msg]
    by (simp add: handleQuestion_def)
  have loop: "forQuestions lib g r (pre @ q # post) 0 (SetReply new_Msg r) =
      (evs @ [Log (LogReceivedQuery (Q_Name q)), Log (LogNoLocal (Q_Name q)),
        ExchangeCall r (forwarder g @ '':53''), WriteMsg (SetReply (CopyTo resp new_Msg) r)]
         @ logQuery g (Q_Name q) ''Forwarded response'', None)"
    by (simp add: forQuestions_append assms(2) step)
  have quiet: "written evs = []"
    using forQuestions_written [OF assms(2)] by simp
  have run: "handleRequest lib g r =
      evs @ [Log (LogReceivedQuery (Q_Name q)), Log (LogNoLocal (Q_Name q)),
        ExchangeCall r (forwarder g @ '':53''), WriteMsg (SetReply (CopyTo resp new_Msg) r)]
         @ logQuery g (Q_Name q) ''Forwarded response''"
    using loop by (simp add: handleRequest_def assms(1))
  show ?thesis
    by (simp add: run quiet)
qed

theorem forward_success_ends_the_handler_witness:
  "Question example_multi =
       [mkQuestion ''example.com.'' TypeA] @ mkQuestion ''nosuch.example.com.'' TypeA
          # [mkQuestion ''other.example.com.'' TypeA]
   \<and> snd (forQuestions (lib_answering example_answer) example_globals example_multi
            [mkQuestion ''example.com.'' TypeA] 0 (SetReply new_Msg example_multi))
       = Some ((SetReply new_Msg example_multi)\<lparr>Answer := [example_rr]\<rparr>, 0)
   \<and> dnsRecords example_globals
        (queryKey (lib_answering example_answer) (Q_Name (mkQuestion ''nosuch.example.com.'' TypeA)))
       = None
   \<and> enableForwarding example_globals \<and> forwarder example_globals \<noteq> []
   \<and> Client_Exchange (lib_answering example_answer) 0 example_multi
        (forwarder example_globals @ '':53'') = Inr example_answer
   \<and> written (handleRequest (lib_answering example_answer) example_globals example_multi)
       = [SetReply (CopyTo example_answer new_Msg) example_multi]"
proof -
  have qs: "Question example_multi =
       [mkQuestion ''example.com.'' TypeA] @ mkQuestion ''nosuch.example.com.'' TypeA
          # [mkQuestion ''other.example.com.'' TypeA]"
    by (simp add: example_multi_def query_def)
  have pre: "forQuestions (lib_answering example_answer) example_globals example_multi
            [mkQuestion ''example.com.'' TypeA] 0 (SetReply new_Msg example_multi)
       = ([Log (LogReceivedQuery ''example.com.''), Log (LogFoundLocal ''example.com.''),
           Log LogRespondingLocal,
           QueryLogWrite (''Query: example.com., Response: Authoritative response'' @ [CHR 0x0A])],
          Some ((SetReply new_Msg example_multi)\<lparr>Answer := [example_rr]\<rparr>, 0))"
    by (simp add: handleQuestion_def key_eval logQuery_def example_globals_def mkQuestion_def)
  have key: "dnsRecords example_globals
        (queryKey (lib_answering example_answer) (Q_Name (mkQuestion ''nosuch.example.com.'' TypeA)))
       = None"
    by (simp add: key_eval example_globals_def mkQuestion_def)
  have on: "enableForwarding example_globals" and fw: "forwarder example_globals \<noteq> []"
    by (simp_all add: example_globals_def)
  have ex: "Client_Exchange (lib_answering example_answer) 0 example_multi
        (forwarder example_globals @ '':53'') = Inr example_answer"
    by (simp add: lib_answering_def lib_unreachable_def)
  show ?thesis
    using qs pre key on fw ex forward_success_ends_the_handler [OF qs pre key on fw ex]
    by simp
qed

section \<open>Names and types\<close>

text \<open>The code's folding of a byte is the folding of the alphabet.\<close>

lemma lowerByte_fold: "lowerByte c = spec_foldCase c"
proof (cases c)
  case (Char b0 b1 b2 b3 b4 b5 b6 b7)
  show ?thesis
    unfolding Char
    by (cases b0; cases b1; cases b2; cases b3; cases b4; cases b5; cases b6; cases b7;
        simp add: lowerByte_def spec_foldCase_def char_of_def bit_Suc_0_iff)
qed

lemma isASCII_dotted: "list_all isASCII (dotted name) = list_all isASCII name"
  by (simp add: dotted_def isASCII_def)

lemma queryKey_ascii:
  "list_all isASCII name \<Longrightarrow> queryKey lib name = map spec_foldCase (dotted name)"
  using isASCII_dotted [of name]
  by (simp add: queryKey_dotted ToLower_def lowerByte_fold cong: map_cong)

lemma addRecord_supported:
  "Type rec = ''A'' \<or> Type rec = ''CNAME'' \<Longrightarrow>
   addRecord lib rec g =
     (g\<lparr>dnsRecords := (dnsRecords g)(queryKey lib (Name rec) \<mapsto>
          (case dnsRecords g (queryKey lib (Name rec)) of None \<Rightarrow> [] | Some rs \<Rightarrow> rs) @
          [if Type rec = ''A''
           then dns_A \<lparr>Hdr_Name = dotted (Name rec), Rrtype = TypeA, Class = ClassINET,
                        Ttl = TTL rec, Rdlength = 0\<rparr> (ParseIP lib (Data rec))
           else dns_CNAME \<lparr>Hdr_Name = dotted (Name rec), Rrtype = TypeCNAME,
                            Class = ClassINET, Ttl = TTL rec, Rdlength = 0\<rparr> (Data rec)])\<rparr>,
      [LogLoadedRecord (dotted (Name rec)) (Type rec) (TTL rec) (Data rec)])"
  by (auto simp: addRecord_def queryKey_def dotted_def)

text \<open>
  C6. Lookup is case-insensitive. For every entry \<open>rec\<close> of a supported type:
  \<^item> \<open>addRecord\<close> stores its record under the key \<open>queryKey lib (Name rec)\<close>, the very
    function the handler applies to a question's name, after whatever that key held;
  \<^item> so a question for any name \<open>qn\<close> with the same key gets the stored list, the new
    record last, appended to the answers;
  \<^item> on ASCII names that key is the name with its trailing dot, each capital letter
    replaced by its small letter; two ASCII names that differ in case or in the trailing
    dot only have the same key;
  \<^item> in particular the owner \<open>Example.com\<close> and the query names \<open>example.com\<close>,
    \<open>EXAMPLE.COM.\<close> and \<open>example.com.\<close> all have the key \<open>example.com.\<close>.
\<close>

theorem lookup_is_case_insensitive:
  assumes "Type rec = ''A'' \<or> Type rec = ''CNAME''"
  shows "dnsRecords (fst (addRecord lib rec g)) =
           (dnsRecords g)(queryKey lib (Name rec) \<mapsto>
             (case dnsRecords g (queryKey lib (Name rec)) of None \<Rightarrow> [] | Some rs \<Rightarrow> rs) @
             [if Type rec = ''A''
              then dns_A \<lparr>Hdr_Name = dotted (Name rec), Rrtype = TypeA, Class = ClassINET,
                           Ttl = TTL rec, Rdlength = 0\<rparr> (ParseIP lib (Data rec))
              else dns_CNAME \<lparr>Hdr_Name = dotted (Name rec), Rrtype = TypeCNAME,
                               Class = ClassINET, Ttl = TTL rec, Rdlength = 0\<rparr> (Data rec)])
         \<and> (queryKey lib qn = queryKey lib (Name rec) \<longrightarrow>
             snd (handleQuestion lib (fst (addRecord lib rec g)) r k m
                    \<lparr>Q_Name = qn, Qtype = qtype, Qclass = qclass\<rparr>) =
               Some (m\<lparr>Answer := Answer m @
                 (case dnsRecords g (queryKey lib (Name rec)) of None \<Rightarrow> [] | Some rs \<Rightarrow> rs) @
                 [if Type rec = ''A''
                  then dns_A \<lparr>Hdr_Name = dotted (Name rec), Rrtype = TypeA, Class = ClassINET,
                               Ttl = TTL rec, Rdlength = 0\<rparr> (ParseIP lib (Data rec))
                  else dns_CNAME \<lparr>Hdr_Name = dotted (Name rec), Rrtype = TypeCNAME,
                                   Class = ClassINET, Ttl = TTL rec, Rdlength = 0\<rparr> (Data rec)]\<rparr>,
                     k))
         \<and> (list_all isASCII name \<longrightarrow> queryKey lib name = map spec_foldCase (dotted name))
         \<and> (list_all isASCII qn \<and> list_all isASCII (Name rec)
              \<and> map spec_foldCase (dotted qn) = map spec_foldCase (dotted (Name rec)) \<longrightarrow>
             queryKey lib qn = queryKey lib (Name rec))
         \<and> (Name rec = ''Example.com''
              \<and> (qn = ''example.com'' \<or> qn = ''EXAMPLE.COM.'' \<or> qn = ''example.com.'') \<longrightarrow>
             queryKey lib (Name rec) = ''example.com.'' \<and> queryKey lib qn = ''example.com.'')"
proof -
  let ?old = "case dnsRecords g (queryKey lib (Name rec)) of None \<Rightarrow> [] | Some rs \<Rightarrow> rs"
  let ?rr = "if Type rec = ''A''
              then dns_A \<lparr>Hdr_Name = dotted (Name rec), Rrtype = TypeA, Class = ClassINET,
                           Ttl = TTL rec, Rdlength = 0\<rparr> (ParseIP lib (Data rec))
              else dns_CNAME \<lparr>Hdr_Name = dotted (Name rec), Rrtype = TypeCNAME,
                               Class = ClassINET, Ttl = TTL rec, Rdlength = 0\<rparr> (Data rec)"
  have table: "dnsRecords (fst (addRecord lib rec g)) =
      (dnsRecords g)(queryKey lib (Name rec) \<mapsto> ?old @ [?rr])"
    by (simp add: addRecord_supported [OF assms])
  have answer: "snd (handleQuestion lib (fst (addRecord lib rec g)) r k m
                    \<lparr>Q_Name = qn, Qtype = qtype, Qclass = qclass\<rparr>) =
               Some (m\<lparr>Answer := Answer m @ ?old @ [?rr]\<rparr>, k)"
    if "queryKey lib qn = queryKey lib (Name rec)"
    using that by (simp add: handleQuestion_def table)
  have fold: "queryKey lib name = map spec_foldCase (dotted name)" if "list_all isASCII name"
    using that by (rule queryKey_ascii)
  have same: "queryKey lib qn = queryKey lib (Name rec)"
    if "list_all isASCII qn" "list_all isASCII (Name rec)"
      "map spec_foldCase (dotted qn) = map spec_foldCase (dotted (Name rec))"
    using that by (simp add: queryKey_ascii)
  have example: "queryKey lib (Name rec) = ''example.com.'' \<and> queryKey lib qn = ''example.com.''"
    if "Name rec = ''Example.com''"
      "qn = ''example.com'' \<or> qn = ''EXAMPLE.COM.'' \<or> qn = ''example.com.''"
    using that by (auto simp: key_eval)
  show ?thesis
    using table answer fold same example by blast
qed

theorem lookup_is_case_insensitive_witness:
  "(Type \<lparr>Name = ''Example.com'', Type = ''A'', TTL = 600, Data = ''192.0.2.1''\<rparr> = ''A''
      \<or> Type \<lparr>Name = ''Example.com'', Type = ''A'', TTL = 600, Data = ''192.0.2.1''\<rparr> = ''CNAME'')
   \<and> queryKey lib_unreachable ''EXAMPLE.COM.'' =
       queryKey lib_unreachable
         (Name \<lparr>Name = ''Example.com'', Type = ''A'', TTL = 600, Data = ''192.0.2.1''\<rparr>)
   \<and> list_all isASCII ''Mail.Example.ORG''
   \<and> list_all isASCII ''EXAMPLE.COM.''
   \<and> map spec_foldCase (dotted ''EXAMPLE.COM.'') = map spec_foldCase (dotted ''Example.com'')
   \<and> snd (handleQuestion lib_unreachable
        (fst (addRecord lib_unreachable
               \<lparr>Name = ''Example.com'', Type = ''A'', TTL = 600, Data = ''192.0.2.1''\<rparr>
               (example_globals\<lparr>dnsRecords := Map.empty\<rparr>)))
        (query [mkQuestion ''EXAMPLE.COM.'' TypeA]) 0 new_Msg
        \<lparr>Q_Name = ''EXAMPLE.COM.'', Qtype = TypeA, Qclass = ClassINET\<rparr>) =
      Some (new_Msg\<lparr>Answer :=
              [dns_A \<lparr>Hdr_Name = ''Example.com.'', Rrtype = TypeA, Class = ClassINET,
                      Ttl = 600, Rdlength = 0\<rparr> example_ip]\<rparr>, 0)
   \<and> queryKey lib_unreachable ''Mail.Example.ORG'' = ''mail.example.org.''"
proof -
  have fold: "map spec_foldCase (dotted ''Mail.Example.ORG'') = ''mail.example.org.''"
    "map spec_foldCase (dotted ''EXAMPLE.COM.'') = map spec_foldCase (dotted ''Example.com'')"
    by (simp_all add: spec_foldCase_def dotted_def HasSuffix_def)
  have ascii: "list_all isASCII ''Mail.Example.ORG''" "list_all isASCII ''EXAMPLE.COM.''"
    by (simp_all add: isASCII_def)
  have key: "queryKey lib_unreachable ''EXAMPLE.COM.'' = ''example.com.''"
    "queryKey lib_unreachable ''Example.com'' = ''example.com.''"
    by (simp_all add: key_eval)
  show ?thesis
    using fold ascii key
      lookup_is_case_insensitive [where lib = lib_unreachable
        and rec = "\<lparr>Name = ''Example.com'', Type = ''A'', TTL = 600, Data = ''192.0.2.1''\<rparr>"
        and qn = "''EXAMPLE.COM.''" and g = "example_globals\<lparr>dnsRecords := Map.empty\<rparr>"
        and r = "query [mkQuestion ''EXAMPLE.COM.'' TypeA]" and k = 0 and m = new_Msg
        and qtype = TypeA and qclass = ClassINET and name = "''Mail.Example.ORG''"]
    by (simp add: lib_unreachable_def example_ParseIP_def new_Msg_def dotted_def HasSuffix_def)
qed

text \<open>
  C8. The handler never reads the type of a question. For a name stored in the record
  table, a request with one question for it gets a reply whose answer section is the whole
  list stored under the name, whatever the question's type is; and an iteration of the
  loop does the same for a question and for that question with any other type.
\<close>

theorem lookup_ignores_query_type:
  assumes "dnsRecords g (queryKey lib (Q_Name q)) = Some records"
  shows "written (handleRequest lib g (r\<lparr>Question := [q\<lparr>Qtype := qtype\<rparr>]\<rparr>)) =
           [(SetReply new_Msg (r\<lparr>Question := [q\<lparr>Qtype := qtype\<rparr>]\<rparr>))\<lparr>Answer := records\<rparr>]
         \<and> handleQuestion lib g r k m (q\<lparr>Qtype := qtype\<rparr>) = handleQuestion lib g r k m q"
proof -
  have "(SetReply new_Msg (r\<lparr>Question := [q\<lparr>Qtype := qtype\<rparr>]\<rparr>))\<lparr>Answer := []\<rparr>
          = SetReply new_Msg (r\<lparr>Question := [q\<lparr>Qtype := qtype\<rparr>]\<rparr>)"
    by (simp add: SetReply_def new_Msg_def Let_def)
  moreover have "Answer (SetReply new_Msg (r\<lparr>Question := [q\<lparr>Qtype := qtype\<rparr>]\<rparr>)) = []"
    by (simp add: SetReply_def new_Msg_def Let_def)
  ultimately show ?thesis
    using assms by (simp add: handleRequest_def handleQuestion_def)
qed

theorem lookup_ignores_query_type_witness:
  "dnsRecords example_globals (queryKey lib_unreachable (Q_Name (mkQuestion ''example.com.'' TypeA)))
     = Some [example_rr]
   \<and> written (handleRequest lib_unreachable example_globals
        (query [mkQuestion ''example.com.'' TypeAAAA])) =
      [\<lparr>MsgHdr = query_hdr\<lparr>Response := True\<rparr>, Compress = False,
        Question = [mkQuestion ''example.com.'' TypeAAAA], Answer = [example_rr],
        Ns = [], Extra = []\<rparr>]"
proof -
  have key: "dnsRecords example_globals
      (queryKey lib_unreachable (Q_Name (mkQuestion ''example.com.'' TypeA))) = Some [example_rr]"
    by (simp add: key_eval example_globals_def mkQuestion_def)
  show ?thesis
    using key lookup_ignores_query_type [OF key, where qtype = TypeAAAA
        and r = "query [mkQuestion ''example.com.'' TypeA]"]
    by (simp add: query_def mkQuestion_def query_hdr_def SetReply_def new_Msg_def const_defs)
qed

section \<open>Loading\<close>

lemma stored_addRecord_keeps:
  "stored g key rr \<Longrightarrow> stored (fst (addRecord lib rec g)) key rr"
  by (auto simp: stored_def addRecord_def Let_def split: option.splits)

lemma stored_addRecords_keeps:
  "stored g key rr \<Longrightarrow> stored (fst (addRecords lib recs g)) key rr"
proof (induction recs arbitrary: g)
  case Nil
  then show ?case by simp
next
  case (Cons rec recs)
  from Cons.IH [OF stored_addRecord_keeps [OF Cons.prems, of lib rec]]
  show ?case by (simp add: split_beta)
qed

lemma addRecord_A:
  "Type rec = ''A'' \<Longrightarrow>
   addRecord lib rec g =
     (g\<lparr>dnsRecords := (dnsRecords g)(queryKey lib (Name rec) \<mapsto>
          (case dnsRecords g (queryKey lib (Name rec)) of None \<Rightarrow> [] | Some rs \<Rightarrow> rs) @
          [dns_A \<lparr>Hdr_Name = dotted (Name rec), Rrtype = TypeA, Class = ClassINET,
                  Ttl = TTL rec, Rdlength = 0\<rparr> (ParseIP lib (Data rec))])\<rparr>,
      [LogLoadedRecord (dotted (Name rec)) ''A'' (TTL rec) (Data rec)])"
  by (simp add: addRecord_def queryKey_def dotted_def)

lemma addRecords_stores_A:
  "List.member recs rec \<Longrightarrow> Type rec = ''A'' \<Longrightarrow>
   stored (fst (addRecords lib recs g)) (queryKey lib (Name rec))
     (dns_A \<lparr>Hdr_Name = dotted (Name rec), Rrtype = TypeA, Class = ClassINET,
             Ttl = TTL rec, Rdlength = 0\<rparr> (ParseIP lib (Data rec)))"
proof (induction recs arbitrary: g)
  case Nil
  then show ?case by simp
next
  case (Cons x recs)
  show ?case
  proof (cases "x = rec")
    case True
    have "stored (fst (addRecord lib rec g)) (queryKey lib (Name rec))
       (dns_A \<lparr>Hdr_Name = dotted (Name rec), Rrtype = TypeA, Class = ClassINET,
               Ttl = TTL rec, Rdlength = 0\<rparr> (ParseIP lib (Data rec)))"
      by (simp add: addRecord_A [OF Cons.prems(2)] stored_def)
    from stored_addRecords_keeps [OF this, of lib recs] True
    show ?thesis by (simp add: split_beta)
  next
    case False
    with Cons.prems(1) have "List.member recs rec"
      by simp
    from Cons.IH [OF this Cons.prems(2)]
    show ?thesis by (simp add: split_beta)
  qed
qed

section \<open>Tabular zone files\<close>

text \<open>
  What the loop over the data rows does with a row it cannot use: a row that has not four
  fields, or whose third field is not a TTL, changes nothing and leaves one diagnostic.
\<close>

lemma csvRow_field_count:
  "length rec \<noteq> 4 \<Longrightarrow> csvRow lib i rec g = (g, [LogInvalidRecordFormat (i + 2) rec])"
  by (simp add: csvRow_def)

lemma csvRow_bad_ttl:
  "length rec = 4 \<Longrightarrow> parseTTL (rec ! 2) = Inl err \<Longrightarrow>
   csvRow lib i rec g = (g, [LogInvalidTTL (i + 2) (rec ! 2) err])"
  by (simp add: csvRow_def)

text \<open>A file of at most one record is an empty zone, loaded without error.\<close>

lemma load_csv_header_only:
  "os_Open lib filename = Inr file \<Longrightarrow> ReadAll 0 [] (csv_scan file) = Inr records \<Longrightarrow>
   length records \<le> 1 \<Longrightarrow>
   loadZoneData lib filename ''csv'' g =
     (None, g\<lparr>dnsRecords := Map.empty\<rparr>, [LogLoadingZone filename ''csv'', LogCsvEmpty])"
  by (simp add: loadZoneData_def)

text \<open>
  The reader itself checks the field count before the loop sees any row: once the first
  record has set the expected count, the records are returned only when every one of them
  has that count.
\<close>

lemma ReadAll_expected_count:
  "0 < n \<Longrightarrow>
   ReadAll n acc (map Inr rows) =
     (if list_all (\<lambda>row. int (length row) = n) rows then Inr (acc @ rows)
      else Inl ErrFieldCount)"
  by (induction rows arbitrary: acc) simp_all

lemma ReadAll_header:
  "header \<noteq> [] \<Longrightarrow>
   ReadAll 0 [] (map Inr (header # rows)) =
     (if list_all (\<lambda>row. length row = length header) rows then Inr (header # rows)
      else Inl ErrFieldCount)"
  by (simp add: ReadAll_expected_count)

text \<open>
  So a file in which some data row has another number of fields than the header is
  refused as a whole.
\<close>

lemma load_csv_uneven_rows_fails:
  assumes "os_Open lib filename = Inr file" and "csv_scan file = map Inr (header # rows)"
      and "header \<noteq> []" and "\<not> list_all (\<lambda>row. length row = length header) rows"
  shows "loadZoneData lib filename ''csv'' g =
     (Some (ErrReadingCSV filename ErrFieldCount), g\<lparr>dnsRecords := Map.empty\<rparr>,
      [LogLoadingZone filename ''csv''])"
proof -
  have "ReadAll 0 [] (csv_scan file) = Inl ErrFieldCount"
    by (simp only: assms(2) ReadAll_header [OF assms(3)] assms(4) if_False)
  then show ?thesis
    by (simp add: loadZoneData_def assms(1))
qed

text \<open>
  C7. The claim is that a data row with a field count other than four is skipped with a
  diagnostic and the load goes on. The loop has that branch, but the reader is left with
  \<open>FieldsPerRecord = 0\<close>, so \<open>ReadAll\<close> fails on the first record whose count
  differs from the header's. At the documentation's header \<open>name,type,ttl,data\<close>, one
  good row and one row of three fields, the load returns the reader's error, the table is
  empty (the good row is not loaded either) and no row diagnostic is logged.
\<close>

theorem short_row_fails_the_whole_load:
  "loadZoneData
     (lib_with_file ''zone_data.csv''
        (csv_file [[''name'', ''type'', ''ttl'', ''data''],
                   [''example.com'', ''A'', ''600'', ''192.0.2.1''],
                   [''www.example.com'', ''CNAME'', ''600'']]))
     ''zone_data.csv'' ''csv'' example_globals =
   (Some (ErrReadingCSV ''zone_data.csv'' ErrFieldCount),
    example_globals\<lparr>dnsRecords := Map.empty\<rparr>,
    [LogLoadingZone ''zone_data.csv'' ''csv''])"
  by (simp add: loadZoneData_def lib_with_file_def csv_file_def)

section \<open>Entries of type A whose data is no address\<close>

lemma stored_csvRow_keeps:
  "stored g key rr \<Longrightarrow> stored (fst (csvRow lib i row g)) key rr"
  by (simp add: csvRow_def stored_addRecord_keeps split: sum.splits)

lemma stored_csvRows_keeps:
  "stored g key rr \<Longrightarrow> stored (fst (csvRows lib i rows g)) key rr"
proof (induction rows arbitrary: g i)
  case Nil
  then show ?case by simp
next
  case (Cons row rows)
  from Cons.IH [OF stored_csvRow_keeps [OF Cons.prems, of lib i row]]
  show ?case by (simp add: split_beta)
qed

lemma csvRows_stores_A:
  "List.member rows [name, ''A'', ttlStr, data] \<Longrightarrow> parseTTL ttlStr = Inr ttl \<Longrightarrow>
   stored (fst (csvRows lib i rows g)) (queryKey lib name)
     (dns_A \<lparr>Hdr_Name = dotted name, Rrtype = TypeA, Class = ClassINET,
             Ttl = ttl, Rdlength = 0\<rparr> (ParseIP lib data))"
proof (induction rows arbitrary: g i)
  case Nil
  then show ?case by simp
next
  case (Cons row rows)
  show ?case
  proof (cases "row = [name, ''A'', ttlStr, data]")
    case True
    have "csvRow lib i row g =
        addRecord lib \<lparr>Name = name, Type = ''A'', TTL = ttl, Data = data\<rparr> g"
      by (simp add: csvRow_def True Cons.prems(2))
    then have "stored (fst (csvRow lib i row g)) (queryKey lib name)
       (dns_A \<lparr>Hdr_Name = dotted name, Rrtype = TypeA, Class = ClassINET,
               Ttl = ttl, Rdlength = 0\<rparr> (ParseIP lib data))"
      by (simp add: addRecord_A stored_def)
    from stored_csvRows_keeps [OF this, of lib "i + 1" rows]
    show ?thesis by (simp add: split_beta)
  next
    case False
    with Cons.prems(1) have "List.member rows [name, ''A'', ttlStr, data]"
      by auto
    from Cons.IH [OF this Cons.prems(2)]
    show ?thesis by (simp add: split_beta)
  qed
qed

lemma load_csv_even_rows:
  assumes "os_Open lib filename = Inr file" and "csv_scan file = map Inr (header # rows)"
      and "length header = 4" and "list_all (\<lambda>row. length row = 4) rows" and "rows \<noteq> []"
  shows "fst (loadZoneData lib filename ''csv'' g) = None"
    and "fst (snd (loadZoneData lib filename ''csv'' g)) =
           fst (csvRows lib 0 rows (g\<lparr>dnsRecords := Map.empty\<rparr>))"
proof -
  have ne: "header \<noteq> []"
    using assms(3) by auto
  have all: "list_all (\<lambda>row. length row = length header) rows"
    using assms(3,4) by simp
  have "ReadAll 0 [] (csv_scan file) = Inr (header # rows)"
    by (simp only: assms(2) ReadAll_header [OF ne] all if_True)
  then show "fst (loadZoneData lib filename ''csv'' g) = None"
    and "fst (snd (loadZoneData lib filename ''csv'' g)) =
           fst (csvRows lib 0 rows (g\<lparr>dnsRecords := Map.empty\<rparr>))"
    using assms(5) by (simp_all add: loadZoneData_def assms(1) split_beta Let_def)
qed

text \<open>
  C9, as amended. A zone entry of type \<open>A\<close> whose data the address parser refuses
  (\<open>net.ParseIP\<close> gives \<open>nil\<close>: the text is no IPv4 and no IPv6 address):
  \<open>addRecord\<close> builds the A record all the same, with the \<open>nil\<close> address, appends it to
  the list under the owner's key and logs it as loaded; it has no error to return. A YAML
  zone file that holds such an entry, and a CSV zone file that holds it as a row (all rows
  of four fields, the row's TTL readable), load without error, and the record is in the
  table afterwards.
\<close>

theorem invalid_address_is_stored_not_rejected:
  assumes "Type rec = ''A''" and "ParseIP lib (Data rec) = []"
  shows "addRecord lib rec g =
           (g\<lparr>dnsRecords := (dnsRecords g)(queryKey lib (Name rec) \<mapsto>
                (case dnsRecords g (queryKey lib (Name rec)) of None \<Rightarrow> [] | Some rs \<Rightarrow> rs) @
                [dns_A \<lparr>Hdr_Name = dotted (Name rec), Rrtype = TypeA, Class = ClassINET,
                        Ttl = TTL rec, Rdlength = 0\<rparr> []])\<rparr>,
            [LogLoadedRecord (dotted (Name rec)) ''A'' (TTL rec) (Data rec)])
         \<and> (os_Open lib filename = Inr file \<and> yaml_Decode file = Inr config
              \<and> List.member (Records config) rec \<longrightarrow>
            fst (loadZoneData lib filename ''yaml'' g) = None
            \<and> stored (fst (snd (loadZoneData lib filename ''yaml'' g))) (queryKey lib (Name rec))
                (dns_A \<lparr>Hdr_Name = dotted (Name rec), Rrtype = TypeA, Class = ClassINET,
                        Ttl = TTL rec, Rdlength = 0\<rparr> []))
         \<and> (os_Open lib csvname = Inr csvfile \<and> csv_scan csvfile = map Inr (header # rows)
              \<and> length header = 4 \<and> list_all (\<lambda>row. length row = 4) rows
              \<and> List.member rows [Name rec, ''A'', ttlStr, Data rec]
              \<and> parseTTL ttlStr = Inr (TTL rec) \<longrightarrow>
            fst (loadZoneData lib csvname ''csv'' g) = None
            \<and> stored (fst (snd (loadZoneData lib csvname ''csv'' g))) (queryKey lib (Name rec))
                (dns_A \<lparr>Hdr_Name = dotted (Name rec), Rrtype = TypeA, Class = ClassINET,
                        Ttl = TTL rec, Rdlength = 0\<rparr> []))"
proof -
  have one: "addRecord lib rec g =
           (g\<lparr>dnsRecords := (dnsRecords g)(queryKey lib (Name rec) \<mapsto>
                (case dnsRecords g (queryKey lib (Name rec)) of None \<Rightarrow> [] | Some rs \<Rightarrow> rs) @
                [dns_A \<lparr>Hdr_Name = dotted (Name rec), Rrtype = TypeA, Class = ClassINET,
                        Ttl = TTL rec, Rdlength = 0\<rparr> []])\<rparr>,
            [LogLoadedRecord (dotted (Name rec)) ''A'' (TTL rec) (Data rec)])"
    using addRecord_A [OF assms(1), of lib g] assms(2) by simp
  have load: "fst (loadZoneData lib filename ''yaml'' g) = None
            \<and> stored (fst (snd (loadZoneData lib filename ''yaml'' g))) (queryKey lib (Name rec))
                (dns_A \<lparr>Hdr_Name = dotted (Name rec), Rrtype = TypeA, Class = ClassINET,
                        Ttl = TTL rec, Rdlength = 0\<rparr> [])"
    if "os_Open lib filename = Inr file" "yaml_Decode file = Inr config"
      "List.member (Records config) rec"
    using that assms(2)
      addRecords_stores_A [OF that(3) assms(1), of lib "g\<lparr>dnsRecords := Map.empty\<rparr>"]
    by (simp add: loadZoneData_def split_beta Let_def)
  have csv: "fst (loadZoneData lib csvname ''csv'' g) = None
            \<and> stored (fst (snd (loadZoneData lib csvname ''csv'' g))) (queryKey lib (Name rec))
                (dns_A \<lparr>Hdr_Name = dotted (Name rec), Rrtype = TypeA, Class = ClassINET,
                        Ttl = TTL rec, Rdlength = 0\<rparr> [])"
    if h: "os_Open lib csvname = Inr csvfile" "csv_scan csvfile = map Inr (header # rows)"
      "length header = 4" "list_all (\<lambda>row. length row = 4) rows"
      "List.member rows [Name rec, ''A'', ttlStr, Data rec]"
      "parseTTL ttlStr = Inr (TTL rec)"
  proof -
    have ne: "rows \<noteq> []"
      using h(5) by auto
    from load_csv_even_rows [OF h(1-4) ne, of g]
      csvRows_stores_A [OF h(5,6), of lib 0 "g\<lparr>dnsRecords := Map.empty\<rparr>"] assms(2)
    show ?thesis by simp
  qed
  show ?thesis
    using one load csv by blast
qed

theorem invalid_address_is_stored_not_rejected_witness:
  "Type bad_entry = ''A''
   \<and> ParseIP (lib_with_file ''zone_data.yaml'' (yaml_file [bad_entry])) (Data bad_entry) = []
   \<and> os_Open (lib_with_file ''zone_data.yaml'' (yaml_file [bad_entry])) ''zone_data.yaml''
        = Inr (yaml_file [bad_entry])
   \<and> yaml_Decode (yaml_file [bad_entry]) = Inr \<lparr>Records = [bad_entry]\<rparr>
   \<and> List.member (Records \<lparr>Records = [bad_entry]\<rparr>) bad_entry
   \<and> loadZoneData (lib_with_file ''zone_data.yaml'' (yaml_file [bad_entry]))
        ''zone_data.yaml'' ''yaml'' example_globals =
      (None,
       example_globals\<lparr>dnsRecords :=
         [''bad.example.com.'' \<mapsto>
            [dns_A \<lparr>Hdr_Name = ''bad.example.com.'', Rrtype = TypeA, Class = ClassINET,
                    Ttl = 300, Rdlength = 0\<rparr> []]]\<rparr>,
       [LogLoadingZone ''zone_data.yaml'' ''yaml'',
        LogLoadedRecord ''bad.example.com.'' ''A'' 300 ''not-an-ip'', LogZoneLoaded])
   \<and> os_Open (lib_with_file ''zone_data.csv''
                (csv_file [[''name'', ''type'', ''ttl'', ''data''], bad_row])) ''zone_data.csv''
        = Inr (csv_file [[''name'', ''type'', ''ttl'', ''data''], bad_row])
   \<and> csv_scan (csv_file [[''name'', ''type'', ''ttl'', ''data''], bad_row])
        = map Inr ([''name'', ''type'', ''ttl'', ''data''] # [bad_row])
   \<and> length [''name'', ''type'', ''ttl'', ''data''] = 4
   \<and> list_all (\<lambda>row. length row = 4) [bad_row]
   \<and> List.member [bad_row] [Name bad_entry, ''A'', ''300'', Data bad_entry]
   \<and> parseTTL ''300'' = Inr (TTL bad_entry)
   \<and> fst (loadZoneData (lib_with_file ''zone_data.csv''
                (csv_file [[''name'', ''type'', ''ttl'', ''data''], bad_row]))
             ''zone_data.csv'' ''csv'' example_globals) = None
   \<and> stored (fst (snd (loadZoneData (lib_with_file ''zone_data.csv''
                (csv_file [[''name'', ''type'', ''ttl'', ''data''], bad_row]))
             ''zone_data.csv'' ''csv'' example_globals)))
        ''bad.example.com.''
        (dns_A \<lparr>Hdr_Name = ''bad.example.com.'', Rrtype = TypeA, Class = ClassINET,
                Ttl = 300, Rdlength = 0\<rparr> [])"
proof -
  have t: "Type bad_entry = ''A''"
    by (simp add: bad_entry_def)
  have p: "ParseIP (lib_with_file ''zone_data.yaml'' (yaml_file [bad_entry])) (Data bad_entry) = []"
    by (simp add: bad_entry_def lib_with_file_def lib_unreachable_def example_ParseIP_def)
  have k: "queryKey lib (Name bad_entry) = ''bad.example.com.''" for lib
    by (simp add: bad_entry_def key_eval)
  have d: "dotted (Name bad_entry) = ''bad.example.com.''"
    by (simp add: bad_entry_def dotted_def HasSuffix_def)
  have one: "addRecord (lib_with_file ''zone_data.yaml'' (yaml_file [bad_entry])) bad_entry
       (example_globals\<lparr>dnsRecords := Map.empty\<rparr>) =
      (example_globals\<lparr>dnsRecords :=
         [''bad.example.com.'' \<mapsto>
            [dns_A \<lparr>Hdr_Name = ''bad.example.com.'', Rrtype = TypeA, Class = ClassINET,
                    Ttl = 300, Rdlength = 0\<rparr> []]]\<rparr>,
       [LogLoadedRecord ''bad.example.com.'' ''A'' 300 ''not-an-ip''])"
    using invalid_address_is_stored_not_rejected [OF t p,
        where g = "example_globals\<lparr>dnsRecords := Map.empty\<rparr>"]
    by (simp add: k d) (simp add: bad_entry_def)
  have o: "os_Open (lib_with_file ''zone_data.yaml'' (yaml_file [bad_entry])) ''zone_data.yaml''
      = Inr (yaml_file [bad_entry])"
    by (simp add: lib_with_file_def)
  have y: "yaml_Decode (yaml_file [bad_entry]) = Inr \<lparr>Records = [bad_entry]\<rparr>"
    by (simp add: yaml_file_def)
  have yaml: "loadZoneData (lib_with_file ''zone_data.yaml'' (yaml_file [bad_entry]))
        ''zone_data.yaml'' ''yaml'' example_globals =
      (None,
       example_globals\<lparr>dnsRecords :=
         [''bad.example.com.'' \<mapsto>
            [dns_A \<lparr>Hdr_Name = ''bad.example.com.'', Rrtype = TypeA, Class = ClassINET,
                    Ttl = 300, Rdlength = 0\<rparr> []]]\<rparr>,
       [LogLoadingZone ''zone_data.yaml'' ''yaml'',
        LogLoadedRecord ''bad.example.com.'' ''A'' 300 ''not-an-ip'', LogZoneLoaded])"
    by (simp add: loadZoneData_def o y one Let_def)
  have pc: "ParseIP (lib_with_file ''zone_data.csv''
                (csv_file [[''name'', ''type'', ''ttl'', ''data''], bad_row])) (Data bad_entry) = []"
    by (simp add: bad_entry_def lib_with_file_def lib_unreachable_def example_ParseIP_def)
  have oc: "os_Open (lib_with_file ''zone_data.csv''
                (csv_file [[''name'', ''type'', ''ttl'', ''data''], bad_row])) ''zone_data.csv''
        = Inr (csv_file [[''name'', ''type'', ''ttl'', ''data''], bad_row])"
    by (simp add: lib_with_file_def)
  have sc: "csv_scan (csv_file [[''name'', ''type'', ''ttl'', ''data''], bad_row])
        = map Inr ([''name'', ''type'', ''ttl'', ''data''] # [bad_row])"
    by (simp add: csv_file_def)
  have len: "length [''name'', ''type'', ''ttl'', ''data''] = 4"
    "list_all (\<lambda>row. length row = 4) [bad_row]"
    by (simp_all add: bad_row_def)
  have mem: "List.member [bad_row] [Name bad_entry, ''A'', ''300'', Data bad_entry]"
    by (simp add: bad_row_def bad_entry_def)
  have ttl: "parseTTL ''300'' = Inr (TTL bad_entry)"
    unfolding bad_entry_def by code_simp
  have both: "os_Open (lib_with_file ''zone_data.csv''
                (csv_file [[''name'', ''type'', ''ttl'', ''data''], bad_row])) ''zone_data.csv''
        = Inr (csv_file [[''name'', ''type'', ''ttl'', ''data''], bad_row])
     \<and> csv_scan (csv_file [[''name'', ''type'', ''ttl'', ''data''], bad_row])
        = map Inr ([''name'', ''type'', ''ttl'', ''data''] # [bad_row])
     \<and> length [''name'', ''type'', ''ttl'', ''data''] = 4
     \<and> list_all (\<lambda>row. length row = 4) [bad_row]
     \<and> List.member [bad_row] [Name bad_entry, ''A'', ''300'', Data bad_entry]
     \<and> parseTTL ''300'' = Inr (TTL bad_entry)"
    using oc sc len mem ttl by blast
  have csv: "fst (loadZoneData (lib_with_file ''zone_data.csv''
                (csv_file [[''name'', ''type'', ''ttl'', ''data''], bad_row]))
             ''zone_data.csv'' ''csv'' example_globals) = None
   \<and> stored (fst (snd (loadZoneData (lib_with_file ''zone_data.csv''
                (csv_file [[''name'', ''type'', ''ttl'', ''data''], bad_row]))
             ''zone_data.csv'' ''csv'' example_globals)))
        ''bad.example.com.''
        (dns_A \<lparr>Hdr_Name = ''bad.example.com.'', Rrtype = TypeA, Class = ClassINET,
                Ttl = 300, Rdlength = 0\<rparr> [])"
    using invalid_address_is_stored_not_rejected [OF t pc, where g = example_globals,
        THEN conjunct2, THEN conjunct2, THEN mp, OF both]
    by (simp add: k d) (simp add: bad_entry_def)
  show ?thesis
    using t p o y yaml both csv by (simp only: List.member_iff) simp
qed

text \<open>
  C9, as stated, fails on data that is no IPv4 literal but that \<open>net.ParseIP\<close> accepts
  all the same. The entry \<open>mapped.example.com A 300 ::ffff:192.0.2.1\<close> has IPv4-mapped
  IPv6 text as its data; the record stored for it carries the sixteen address bytes that
  \<open>192.0.2.1\<close> itself parses to, not an empty or invalid address.
\<close>

theorem mapped_address_is_stored_as_valid_address:
  "Type mapped_entry = ''A''
   \<and> \<not> isIPv4Literal (Data mapped_entry)
   \<and> isIPv4Literal ''192.0.2.1''
   \<and> ParseIP lib_unreachable (Data mapped_entry) = ParseIP lib_unreachable ''192.0.2.1''
   \<and> ParseIP lib_unreachable (Data mapped_entry) \<noteq> []
   \<and> addRecord lib_unreachable mapped_entry (example_globals\<lparr>dnsRecords := Map.empty\<rparr>) =
      (example_globals\<lparr>dnsRecords :=
         [''mapped.example.com.'' \<mapsto>
            [dns_A \<lparr>Hdr_Name = ''mapped.example.com.'', Rrtype = TypeA, Class = ClassINET,
                    Ttl = 300, Rdlength = 0\<rparr>
               [0, 0, 0, 0, 0, 0, 0, 0, 0, 0, 255, 255, 192, 0, 2, 1]]]\<rparr>,
       [LogLoadedRecord ''mapped.example.com.'' ''A'' 300 ''::ffff:192.0.2.1''])"
proof -
  have lit: "\<not> isIPv4Literal (Data mapped_entry)" "isIPv4Literal ''192.0.2.1''"
    unfolding mapped_entry_def by code_simp+
  have rest: "Type mapped_entry = ''A''"
    "ParseIP lib_unreachable (Data mapped_entry) = ParseIP lib_unreachable ''192.0.2.1''"
    "ParseIP lib_unreachable (Data mapped_entry) \<noteq> []"
    by (simp_all add: mapped_entry_def lib_unreachable_def example_ParseIP_def example_ip_def)
  have add: "addRecord lib_unreachable mapped_entry (example_globals\<lparr>dnsRecords := Map.empty\<rparr>) =
      (example_globals\<lparr>dnsRecords :=
         [''mapped.example.com.'' \<mapsto>
            [dns_A \<lparr>Hdr_Name = ''mapped.example.com.'', Rrtype = TypeA, Class = ClassINET,
                    Ttl = 300, Rdlength = 0\<rparr>
               [0, 0, 0, 0, 0, 0, 0, 0, 0, 0, 255, 255, 192, 0, 2, 1]]]\<rparr>,
       [LogLoadedRecord ''mapped.example.com.'' ''A'' 300 ''::ffff:192.0.2.1''])"
    by (simp add: addRecord_def mapped_entry_def key_eval lib_unreachable_def
          example_ParseIP_def example_ip_def)
  show ?thesis
    using lit rest add by blast
qed

section \<open>Several questions in one message\<close>

lemma handleQuestion_continues:
  "handleQuestion lib g r k m q = (evs, Some (m1, k1)) \<Longrightarrow>
   Answer m1 = Answer m @ localRecords lib g q
   \<and> Rcode (MsgHdr m1) =
       (if noLocalAnswer lib g q then RcodeNameError else Rcode (MsgHdr m))"
  by (auto simp: handleQuestion_def localRecords_def noLocalAnswer_def Let_def
      split: option.splits if_splits sum.splits)

lemma forQuestions_continues:
  "forQuestions lib g r qs k m = (evs, Some (m', k')) \<Longrightarrow>
   Answer m' = Answer m @ concat (map (localRecords lib g) qs)
   \<and> Rcode (MsgHdr m') =
       (if list_ex (noLocalAnswer lib g) qs then RcodeNameError else Rcode (MsgHdr m))"
proof (induction qs arbitrary: k m evs)
  case Nil
  then show ?case by simp
next
  case (Cons q qs)
  obtain e1 r1 where h: "handleQuestion lib g r k m q = (e1, r1)"
    by (cases "handleQuestion lib g r k m q")
  show ?case
  proof (cases r1)
    case None
    with h Cons.prems show ?thesis by simp
  next
    case (Some a)
    obtain m1 k1 where a: "a = (m1, k1)" by (cases a)
    obtain e2 r2 where f: "forQuestions lib g r qs k1 m1 = (e2, r2)"
      by (cases "forQuestions lib g r qs k1 m1")
    from Cons.prems h Some a f have r2: "r2 = Some (m', k')" by simp
    from handleQuestion_continues [OF h [unfolded Some a]]
      Cons.IH [OF f [unfolded r2]]
    show ?thesis by auto
  qed
qed

text \<open>
  C10, as amended. When the loop runs to its end (no question of the message is forwarded
  with success) and some question of the message has no local answer, the one reply
  written has the response code NXDOMAIN and, as its answer section, the records of all
  the questions that have a local answer, in order. A reply can so carry answers and the
  NXDOMAIN code together.
\<close>

theorem nxdomain_code_beside_local_answers:
  assumes "forQuestions lib g r (Question r) 0 (SetReply new_Msg r) = (evs, Some (m, k))"
      and "list_ex (noLocalAnswer lib g) (Question r)"
  shows "written (handleRequest lib g r) = [m]
         \<and> Rcode (MsgHdr m) = RcodeNameError
         \<and> Answer m = concat (map (localRecords lib g) (Question r))"
proof -
  have quiet: "written evs = []"
    using forQuestions_written [OF assms(1)] by simp
  have "written (handleRequest lib g r) = [m]"
    by (simp add: handleRequest_def assms(1) quiet)
  with forQuestions_continues [OF assms(1)] assms(2) show ?thesis
    by simp
qed

theorem nxdomain_code_beside_local_answers_witness:
  "snd (forQuestions lib_unreachable example_globals example_multi (Question example_multi) 0
          (SetReply new_Msg example_multi))
     = Some (upstream_response [mkQuestion ''example.com.'' TypeA] RcodeNameError [example_rr]
               \<lparr>MsgHdr := query_hdr\<lparr>Response := True, Rcode := RcodeNameError\<rparr>\<rparr>, 2)
   \<and> list_ex (noLocalAnswer lib_unreachable example_globals) (Question example_multi)
   \<and> written (handleRequest lib_unreachable example_globals example_multi)
     = [upstream_response [mkQuestion ''example.com.'' TypeA] RcodeNameError [example_rr]
               \<lparr>MsgHdr := query_hdr\<lparr>Response := True, Rcode := RcodeNameError\<rparr>\<rparr>]"
proof -
  obtain evs where run:
    "forQuestions lib_unreachable example_globals example_multi (Question example_multi) 0
          (SetReply new_Msg example_multi)
     = (evs, Some (upstream_response [mkQuestion ''example.com.'' TypeA] RcodeNameError [example_rr]
               \<lparr>MsgHdr := query_hdr\<lparr>Response := True, Rcode := RcodeNameError\<rparr>\<rparr>, 2))"
    by (simp add: handleQuestion_def key_eval logQuery_def fixture_defs const_defs
          SetRcode_def SetReply_def new_Msg_def)
  have absent: "list_ex (noLocalAnswer lib_unreachable example_globals) (Question example_multi)"
    by (simp add: noLocalAnswer_def key_eval fixture_defs)
  show ?thesis
    using run absent nxdomain_code_beside_local_answers [OF run absent]
    by simp
qed

text \<open>
  C10, as stated, fails when a question after the one answered NXDOMAIN is forwarded with
  success. The message asks for \<open>example.com.\<close> (in the zone), \<open>nosuch.example.com.\<close>
  and \<open>other.example.com.\<close>; the upstream times out on the first exchange and answers
  the second. The second question is resolved to NXDOMAIN, and the reply the client gets
  is the forwarded one, with response code 0 and none of the local answers.
\<close>

theorem later_forward_drops_nxdomain_code:
  "handleRequest (lib_flaky example_answer) example_globals example_multi =
     [Log (LogReceivedQuery ''example.com.''), Log (LogFoundLocal ''example.com.''),
      Log LogRespondingLocal,
      QueryLogWrite (''Query: example.com., Response: Authoritative response'' @ [CHR 0x0A]),
      Log (LogReceivedQuery ''nosuch.example.com.''), Log (LogNoLocal ''nosuch.example.com.''),
      ExchangeCall example_multi ''1.1.1.1:53'',
      Log (LogErrorForwarding (ErrExternal ''i/o timeout'')),
      QueryLogWrite (''Query: nosuch.example.com., Response: NXDOMAIN response'' @ [CHR 0x0A]),
      Log (LogReceivedQuery ''other.example.com.''), Log (LogNoLocal ''other.example.com.''),
      ExchangeCall example_multi ''1.1.1.1:53'',
      WriteMsg (upstream_response [mkQuestion ''example.com.'' TypeA] RcodeSuccess []),
      QueryLogWrite (''Query: other.example.com., Response: Forwarded response'' @ [CHR 0x0A])]
   \<and> Rcode (MsgHdr (upstream_response [mkQuestion ''example.com.'' TypeA] RcodeSuccess []))
       \<noteq> RcodeNameError
   \<and> Answer (upstream_response [mkQuestion ''example.com.'' TypeA] RcodeSuccess []) = []"
  by (simp add: handleRequest_def handleQuestion_def key_eval logQuery_def fixture_defs
        const_defs SetRcode_def SetReply_def CopyTo_def new_Msg_def)

end
